theory Spec2Isabelle
  imports Complex_Main
begin

section \<open>The landing-pad trade study of \<^verbatim>\<open>LCA.py\<close>\<close>

text \<open>
  The source computes with Python numbers; the script passes floats and small integers.
  A number is modelled as the real it denotes, the type the specification gives every
  quantity.  Two things follow.
  \<^item> The value of an operation is its exact value: the rounding of a result to the
    nearest float is not modelled, so an equation between values holds here up to that
    rounding in the program.
  \<^item> The outcome of an operation is modelled: which exception it raises, and when.
    Python's true division \<^verbatim>\<open>/\<close> raises \<^verbatim>\<open>ZeroDivisionError\<close> on a zero
    divisor; the power \<^verbatim>\<open>**\<close> raises \<^verbatim>\<open>OverflowError\<close> when the square is too
    large for a float, and gives 0 when the square is too small for one.
\<close>

subsection \<open>Data\<close>

text \<open>The two exceptions the arithmetic of the source can raise on numbers.\<close>

datatype error = ZeroDivisionError | OverflowError

text \<open>\<^verbatim>\<open>class LandingPad\<close>: the five attributes set by \<^verbatim>\<open>__init__\<close>.\<close>

record landing_pad =
  name :: string
  dust_coeff :: real
  erosion_coeff :: real
  construction_cost :: real
  maintenance_interval :: real

text \<open>\<^verbatim>\<open>class TradeStudy\<close>: the three attributes set by \<^verbatim>\<open>__init__\<close>.\<close>

record trade_study =
  pads :: "landing_pad list"
  vehicle_thrust :: real
  lifetime_months :: real

text \<open>
  The dictionary appended to \<^verbatim>\<open>results\<close>; its five keys are
  \<^verbatim>\<open>'Pad'\<close>, \<^verbatim>\<open>'Solar_Distance (m)'\<close>, \<^verbatim>\<open>'Frequency (landings/month)'\<close>,
  \<^verbatim>\<open>'Dust_Solar (kg/m2/month)'\<close> and \<^verbatim>\<open>'Erosion (cm/month)'\<close>.
\<close>

record result =
  Pad :: string
  Solar_Distance :: real
  Frequency :: real
  Dust_Solar :: real
  Erosion :: real

subsection \<open>Arithmetic that can fail\<close>

text \<open>
  A Python float is a binary64 number.  A real at or above \<open>float_overflow\<close>, half a unit
  in the last place above the largest float, rounds to infinity; a real at or below
  \<open>float_underflow\<close>, half the smallest positive float, rounds to 0.
\<close>

definition float_overflow :: real where
  "float_overflow = 2 ^ 1024 - 2 ^ 970"

definition float_underflow :: real where
  "float_underflow = 1 / 2 ^ 1075"

text \<open>
  Python's \<^verbatim>\<open>x ** 2\<close>: an infinite result is an \<^verbatim>\<open>OverflowError\<close>, a result that
  rounds to zero is returned as 0.0 without an error.  (For an integer \<^verbatim>\<open>x\<close> the square
  is exact and the same error is raised one step later, when the division converts it to
  a float.)
\<close>

definition pow2 :: "real \<Rightarrow> error + real" where
  "pow2 x =
     (if float_overflow \<le> x ^ 2 then Inl OverflowError
      else if x ^ 2 \<le> float_underflow then Inr 0
      else Inr (x ^ 2))"

text \<open>Python's \<^verbatim>\<open>a / b\<close>.\<close>

definition truediv :: "real \<Rightarrow> real \<Rightarrow> error + real" where
  "truediv a b = (if b = 0 then Inl ZeroDivisionError else Inr (a / b))"

subsection \<open>The methods of \<^verbatim>\<open>LandingPad\<close>\<close>

text \<open>
  \<^verbatim>\<open>return self.dust_coeff * thrust / distance**2\<close>: the product, then the square, then
  the quotient of the two.
\<close>

definition calculate_dust_deposition :: "landing_pad \<Rightarrow> real \<Rightarrow> real \<Rightarrow> error + real" where
  "calculate_dust_deposition self thrust distance =
     (case pow2 distance of
        Inl e \<Rightarrow> Inl e
      | Inr square \<Rightarrow> truediv (dust_coeff self * thrust) square)"

text \<open>\<^verbatim>\<open>return self.erosion_coeff * thrust\<close>\<close>

definition calculate_erosion :: "landing_pad \<Rightarrow> real \<Rightarrow> real" where
  "calculate_erosion self thrust = erosion_coeff self * thrust"


subsection \<open>\<^verbatim>\<open>TradeStudy.run_full_study\<close>\<close>

text \<open>
  The three nested \<^verbatim>\<open>for\<close> loops, innermost first.  Each takes the list
  \<^verbatim>\<open>results\<close> built so far and returns it extended, or the exception that left
  the loop; an exception is caught nowhere, so it ends every enclosing loop as well and
  the list is lost with the frame of the call.
\<close>

fun freq_loop ::
  "landing_pad \<Rightarrow> real \<Rightarrow> real \<Rightarrow> real list \<Rightarrow> result list \<Rightarrow> error + result list" where
  "freq_loop pad thrust solar_distance [] results = Inr results"
| "freq_loop pad thrust solar_distance (freq # frequencies) results =
     (case calculate_dust_deposition pad thrust solar_distance of
        Inl e \<Rightarrow> Inl e
      | Inr deposition \<Rightarrow>
          (let dust_solar = deposition * freq;
               erosion_per_landing = calculate_erosion pad thrust;
               erosion_per_month = erosion_per_landing * freq
           in freq_loop pad thrust solar_distance frequencies
                (results @ [\<lparr>Pad = name pad,
                             Solar_Distance = solar_distance,
                             Frequency = freq,
                             Dust_Solar = dust_solar,
                             Erosion = erosion_per_month\<rparr>])))"

fun distance_loop ::
  "landing_pad \<Rightarrow> real \<Rightarrow> real list \<Rightarrow> real list \<Rightarrow> result list \<Rightarrow> error + result list" where
  "distance_loop pad thrust [] frequencies results = Inr results"
| "distance_loop pad thrust (solar_distance # distances) frequencies results =
     (case freq_loop pad thrust solar_distance frequencies results of
        Inl e \<Rightarrow> Inl e
      | Inr results' \<Rightarrow> distance_loop pad thrust distances frequencies results')"

fun pad_loop ::
  "landing_pad list \<Rightarrow> real \<Rightarrow> real list \<Rightarrow> real list \<Rightarrow> result list \<Rightarrow> error + result list" where
  "pad_loop [] thrust distances frequencies results = Inr results"
| "pad_loop (pad # rest) thrust distances frequencies results =
     (case distance_loop pad thrust distances frequencies results of
        Inl e \<Rightarrow> Inl e
      | Inr results' \<Rightarrow> pad_loop rest thrust distances frequencies results')"

definition run_full_study :: "trade_study \<Rightarrow> real list \<Rightarrow> real list \<Rightarrow> error + result list" where
  "run_full_study self distances frequencies =
     pad_loop (pads self) (vehicle_thrust self) distances frequencies []"

subsection \<open>The sweep as the specification words it\<close>

text \<open>
  Section 4.2 of the specification: one record per point, the dust rate being the pad
  model's rate times the frequency and the erosion rate the erosion per landing times the
  frequency.  \<open>spec_record\<close> and \<open>spec_grid\<close> follow those words; they are compared
  with the loops above, which follow the source.
\<close>

definition spec_record :: "real \<Rightarrow> landing_pad \<Rightarrow> real \<Rightarrow> real \<Rightarrow> result" where
  "spec_record thrust pad d f =
     \<lparr>Pad = name pad, Solar_Distance = d, Frequency = f,
      Dust_Solar = dust_coeff pad * thrust / d ^ 2 * f,
      Erosion = erosion_coeff pad * thrust * f\<rparr>"

definition spec_grid :: "real \<Rightarrow> landing_pad list \<Rightarrow> real list \<Rightarrow> real list \<Rightarrow> result list" where
  "spec_grid thrust designs distances frequencies =
     concat (map (\<lambda>pad. concat (map (\<lambda>d. map (spec_record thrust pad d) frequencies) distances))
               designs)"

subsection \<open>The outcome of a sweep in closed form\<close>

text \<open>
  Whether the dust formula raises, and what, depends on the distance alone.
  \<open>distance_failure\<close> is the exception of one distance and \<open>axis_failure\<close> that of the
  first distance of an axis that has one.  The lemmas below prove that the loops behave
  so; the definitions of the loops do not use them.
\<close>

definition distance_failure :: "real \<Rightarrow> error option" where
  "distance_failure d =
     (if float_overflow \<le> d ^ 2 then Some OverflowError
      else if d ^ 2 \<le> float_underflow then Some ZeroDivisionError
      else None)"

fun axis_failure :: "real list \<Rightarrow> error option" where
  "axis_failure [] = None"
| "axis_failure (d # ds) =
     (case distance_failure d of Some e \<Rightarrow> Some e | None \<Rightarrow> axis_failure ds)"

subsection \<open>The configuration of the script\<close>

text \<open>
  The values set under \<^verbatim>\<open>if __name__ == "__main__"\<close>: four designs, a thrust of
  40 kN, a lifetime of 120 months, five distances and four frequencies.
\<close>

definition example_pads :: "landing_pad list" where
  "example_pads =
     [\<lparr>name = ''Bare Regolith Pad (BRP)'', dust_coeff = 0.02, erosion_coeff = 0.1,
       construction_cost = 500000, maintenance_interval = 1\<rparr>,
      \<lparr>name = ''Hardened Surface Pad (HSP)'', dust_coeff = 0.01, erosion_coeff = 0.05,
       construction_cost = 2000000, maintenance_interval = 6\<rparr>,
      \<lparr>name = ''Bermed Pad (BP)'', dust_coeff = 0.005, erosion_coeff = 0.05,
       construction_cost = 2500000, maintenance_interval = 12\<rparr>,
      \<lparr>name = ''Hybrid Multi-Layer Pad (HMP)'', dust_coeff = 0.003, erosion_coeff = 0.02,
       construction_cost = 3500000, maintenance_interval = 18\<rparr>]"

definition example_study :: trade_study where
  "example_study = \<lparr>pads = example_pads, vehicle_thrust = 40, lifetime_months = 120\<rparr>"

definition example_distances :: "real list" where
  "example_distances = [30, 40, 50, 60, 70]"

definition example_frequencies :: "real list" where
  "example_frequencies = [5, 10, 15, 20]"

section \<open>The loops compute the grid\<close>

lemma float_underflow_pos: "0 < float_underflow"
  by (simp add: float_underflow_def)


lemma dust_deposition_eq:
  "calculate_dust_deposition pad t d =
     (case distance_failure d of
        Some e \<Rightarrow> Inl e
      | None \<Rightarrow> Inr (dust_coeff pad * t / d ^ 2))"
proof -
  have "d ^ 2 \<noteq> 0" if "\<not> d ^ 2 \<le> float_underflow"
    using that float_underflow_pos by auto
  then show ?thesis
    by (simp add: calculate_dust_deposition_def pow2_def truediv_def distance_failure_def)
qed

lemma freq_loop_eq:
  "freq_loop pad t d fs acc =
     (case (if fs = [] then None else distance_failure d) of
        Some e \<Rightarrow> Inl e
      | None \<Rightarrow> Inr (acc @ map (spec_record t pad d) fs))"
proof (induction fs arbitrary: acc)
  case Nil
  show ?case by simp
next
  case (Cons f fs)
  show ?case
    by (cases "distance_failure d")
      (simp_all add: dust_deposition_eq Cons.IH calculate_erosion_def spec_record_def)
qed

lemma distance_loop_eq:
  "distance_loop pad t ds fs acc =
     (case (if fs = [] then None else axis_failure ds) of
        Some e \<Rightarrow> Inl e
      | None \<Rightarrow> Inr (acc @ concat (map (\<lambda>d. map (spec_record t pad d) fs) ds)))"
proof (induction ds arbitrary: acc)
  case Nil
  show ?case by simp
next
  case (Cons d ds)
  from Cons.IH show ?case
    by (cases "fs = []"; cases "distance_failure d")
      (simp_all add: freq_loop_eq split: option.split)
qed

lemma pad_loop_eq:
  "pad_loop ps t ds fs acc =
     (case (if ps = [] \<or> fs = [] then None else axis_failure ds) of
        Some e \<Rightarrow> Inl e
      | None \<Rightarrow> Inr (acc @ spec_grid t ps ds fs))"
proof (induction ps arbitrary: acc)
  case Nil
  show ?case by (simp add: spec_grid_def)
next
  case (Cons p ps)
  from Cons.IH show ?case
    by (cases "fs = []"; cases "axis_failure ds")
      (simp_all add: distance_loop_eq spec_grid_def split: option.split)
qed

lemma run_full_study_eq:
  "run_full_study st ds fs =
     (case (if pads st = [] \<or> fs = [] then None else axis_failure ds) of
        Some e \<Rightarrow> Inl e
      | None \<Rightarrow> Inr (spec_grid (vehicle_thrust st) (pads st) ds fs))"
  by (simp add: run_full_study_def pad_loop_eq split: option.split)

section \<open>Length and indexing of the grid\<close>

lemma length_concat_uniform:
  "(\<forall>x\<in>set xs. length (g x) = n) \<Longrightarrow> length (concat (map g xs)) = length xs * n"
  by (induction xs) simp_all

lemma nth_concat_uniform:
  "(\<forall>x\<in>set xs. length (g x) = n) \<Longrightarrow> i < length xs \<Longrightarrow> j < n \<Longrightarrow>
   concat (map g xs) ! (i * n + j) = g (xs ! i) ! j"
proof (induction xs arbitrary: i)
  case Nil
  then show ?case by simp
next
  case (Cons x xs)
  show ?case
  proof (cases i)
    case 0
    with Cons.prems show ?thesis by (simp add: nth_append)
  next
    case (Suc i')
    with Cons.prems have "concat (map g xs) ! (i' * n + j) = g (xs ! i') ! j"
      by (intro Cons.IH) simp_all
    with Suc Cons.prems show ?thesis by (simp add: nth_append)
  qed
qed

lemma length_spec_row:
  "length (concat (map (\<lambda>d. map (spec_record t p d) fs) ds)) = length ds * length fs"
  by (rule length_concat_uniform) simp

lemma length_spec_grid:
  "length (spec_grid t ps ds fs) = length ps * length ds * length fs"
  unfolding spec_grid_def
  by (simp add: length_concat_uniform [where n = "length ds * length fs"] length_spec_row)

lemma index_in_row:
  fixes j k m n :: nat
  assumes "j < m" "k < n"
  shows "j * n + k < m * n"
proof -
  have "j * n + k < j * n + n" using assms by simp
  also have "\<dots> = Suc j * n" by simp
  also have "\<dots> \<le> m * n" using assms by (intro mult_le_mono1) simp
  finally show ?thesis .
qed

lemma spec_grid_nth:
  assumes "i < length ps" "j < length ds" "k < length fs"
  shows "spec_grid t ps ds fs ! ((i * length ds + j) * length fs + k) =
         spec_record t (ps ! i) (ds ! j) (fs ! k)"
proof -
  let ?row = "\<lambda>p. concat (map (\<lambda>d. map (spec_record t p d) fs) ds)"
  have idx: "(i * length ds + j) * length fs + k =
             i * (length ds * length fs) + (j * length fs + k)"
    by (simp add: algebra_simps)
  have inner: "j * length fs + k < length ds * length fs"
    using assms by (intro index_in_row)
  have "spec_grid t ps ds fs ! (i * (length ds * length fs) + (j * length fs + k)) =
        ?row (ps ! i) ! (j * length fs + k)"
    unfolding spec_grid_def
    using assms(1) inner by (intro nth_concat_uniform) (simp_all add: length_spec_row)
  also have "\<dots> = map (spec_record t (ps ! i) (ds ! j)) fs ! k"
    using assms(2,3) by (intro nth_concat_uniform) simp_all
  also have "\<dots> = spec_record t (ps ! i) (ds ! j) (fs ! k)"
    using assms(3) by simp
  finally show ?thesis by (simp only: idx)
qed



section \<open>When a sweep fails\<close>

lemma distance_failure_None_iff:
  "distance_failure d = None \<longleftrightarrow> float_underflow < d ^ 2 \<and> d ^ 2 < float_overflow"
  by (auto simp: distance_failure_def)


lemma axis_failure_None_iff:
  "axis_failure ds = None \<longleftrightarrow> (\<forall>d\<in>set ds. distance_failure d = None)"
  by (induction ds) (auto split: option.splits)

lemma axis_failure_Some_mem:
  "axis_failure ds = Some e \<Longrightarrow> \<exists>d\<in>set ds. distance_failure d = Some e"
  by (induction ds) (auto split: option.splits)


lemma run_full_study_in_range:
  "\<forall>d\<in>set ds. float_underflow < d ^ 2 \<and> d ^ 2 < float_overflow \<Longrightarrow>
   run_full_study st ds fs = Inr (spec_grid (vehicle_thrust st) (pads st) ds fs)"
proof -
  assume "\<forall>d\<in>set ds. float_underflow < d ^ 2 \<and> d ^ 2 < float_overflow"
  then have "axis_failure ds = None"
    by (simp add: axis_failure_None_iff distance_failure_None_iff)
  then show ?thesis by (simp add: run_full_study_eq)
qed

lemma run_full_study_Inr:
  "run_full_study st ds fs = Inr rs \<Longrightarrow> rs = spec_grid (vehicle_thrust st) (pads st) ds fs"
  by (simp add: run_full_study_eq split: if_splits option.splits)

lemma run_full_study_Inr_axis:
  "run_full_study st ds fs = Inr rs \<Longrightarrow> pads st \<noteq> [] \<Longrightarrow> fs \<noteq> [] \<Longrightarrow> axis_failure ds = None"
  by (simp add: run_full_study_eq split: option.splits)

lemma run_full_study_Inl:
  "run_full_study st ds fs = Inl e \<longleftrightarrow> pads st \<noteq> [] \<and> fs \<noteq> [] \<and> axis_failure ds = Some e"
  by (simp add: run_full_study_eq split: option.splits)

lemma spec_grid_empty:
  "ps = [] \<or> ds = [] \<or> fs = [] \<Longrightarrow> spec_grid t ps ds fs = []"
proof -
  assume "ps = [] \<or> ds = [] \<or> fs = []"
  then have "length (spec_grid t ps ds fs) = 0"
    by (auto simp: length_spec_grid)
  then show ?thesis by simp
qed

lemma example_distances_in_range:
  "\<forall>d\<in>set example_distances. float_underflow < d ^ 2 \<and> d ^ 2 < float_overflow"
  by (simp add: example_distances_def float_underflow_def float_overflow_def)

lemma fresh_real: "\<exists>x::real. x \<notin> set xs"
  by (rule ex_new_if_finite) (simp_all add: infinite_UNIV_char_0)

lemma fresh_in_infinite:
  fixes S :: "real set"
  assumes "infinite S"
  shows "\<exists>x\<in>S. x \<notin> set xs"
proof -
  have "infinite (S - set xs)" using assms by (rule Diff_infinite_finite [rotated]) simp
  then have "S - set xs \<noteq> {}" by (rule infinite_imp_nonempty)
  then show ?thesis by blast
qed

lemma tiny_square: 
  assumes "0 \<le> x" "x \<le> 1 / 2 ^ 600"
  shows "distance_failure (x::real) = Some ZeroDivisionError"
proof -
  have "x ^ 2 \<le> (1 / 2 ^ 600) ^ 2" using assms by (intro power_mono) simp_all
  also have "\<dots> \<le> float_underflow" by (simp add: float_underflow_def power_divide)
  finally have le: "x ^ 2 \<le> float_underflow" .
  moreover have "float_underflow < float_overflow"
    by (simp add: float_underflow_def float_overflow_def)
  ultimately show ?thesis by (simp add: distance_failure_def)
qed

lemma huge_square:
  assumes "2 ^ 600 \<le> (x::real)"
  shows "distance_failure x = Some OverflowError"
proof -
  have "float_overflow \<le> (2 ^ 600) ^ 2" by (simp add: float_overflow_def)
  also have "\<dots> \<le> x ^ 2" using assms by (intro power_mono) simp_all
  finally show ?thesis by (simp add: distance_failure_def)
qed

lemma fresh_failing_distance:
  "\<exists>d. d \<notin> set ds \<and> distance_failure d = Some e"
proof (cases e)
  case ZeroDivisionError
  have "infinite {0 .. 1 / 2 ^ 600 :: real}" by (simp add: infinite_Icc)
  then obtain x where "x \<in> {0 .. 1 / 2 ^ 600 :: real}" "x \<notin> set ds"
    using fresh_in_infinite by blast
  with ZeroDivisionError show ?thesis using tiny_square [of x] by auto
next
  case OverflowError
  have "infinite {2 ^ 600 :: real ..}" by (simp add: infinite_Ici)
  then obtain x where "x \<in> {2 ^ 600 :: real ..}" "x \<notin> set ds"
    using fresh_in_infinite by blast
  with OverflowError show ?thesis using huge_square [of x] by auto
qed

section \<open>The claims of the specification\<close>

text \<open>
  Claim C1.  Whenever the sweep returns its list, the record for design \<open>i\<close>, distance
  \<open>j\<close> and frequency \<open>k\<close> carries in its dust field the value
  \<open>dust_coeff * thrust / distance\<^sup>2 * frequency\<close>: \<open>calculate_dust_deposition\<close>
  has returned \<open>dust_coeff * thrust / distance\<^sup>2\<close> for that design, the thrust of
  the study and that distance, and the loop has multiplied it by the frequency.
\<close>

theorem dust_field_of_sweep_record:
  assumes "run_full_study st ds fs = Inr rs"
    and "i < length (pads st)" and "j < length ds" and "k < length fs"
  shows "\<exists>dep. calculate_dust_deposition (pads st ! i) (vehicle_thrust st) (ds ! j) = Inr dep \<and>
           dep = dust_coeff (pads st ! i) * vehicle_thrust st / (ds ! j) ^ 2 \<and>
           Dust_Solar (rs ! ((i * length ds + j) * length fs + k)) = dep * (fs ! k) \<and>
           Dust_Solar (rs ! ((i * length ds + j) * length fs + k)) =
             dust_coeff (pads st ! i) * vehicle_thrust st / (ds ! j) ^ 2 * (fs ! k)"
proof -
  from assms(2,4) have "pads st \<noteq> []" "fs \<noteq> []" by auto
  with assms(1) have "axis_failure ds = None" by (rule run_full_study_Inr_axis)
  with assms(3) have "distance_failure (ds ! j) = None"
    by (simp add: axis_failure_None_iff)
  then have "calculate_dust_deposition (pads st ! i) (vehicle_thrust st) (ds ! j) =
             Inr (dust_coeff (pads st ! i) * vehicle_thrust st / (ds ! j) ^ 2)"
    by (simp add: dust_deposition_eq)
  moreover have "rs = spec_grid (vehicle_thrust st) (pads st) ds fs"
    using assms(1) by (rule run_full_study_Inr)
  then have "Dust_Solar (rs ! ((i * length ds + j) * length fs + k)) =
             dust_coeff (pads st ! i) * vehicle_thrust st / (ds ! j) ^ 2 * (fs ! k)"
    using assms(2-4) by (simp add: spec_grid_nth spec_record_def)
  ultimately show ?thesis by simp
qed

text \<open>
  The scenario of the specification in the configuration of the script: the first design
  (\<open>dust_coeff = 0.02\<close>), thrust 40, distance 50, frequency 10 give a dust rate of 0.0032.
\<close>

theorem dust_field_of_sweep_record_witness:
  "\<exists>rs. run_full_study example_study example_distances example_frequencies = Inr rs \<and>
        Dust_Solar (rs ! 9) = 0.0032"
proof -
  obtain rs where
    run: "run_full_study example_study example_distances example_frequencies = Inr rs"
    using run_full_study_in_range [OF example_distances_in_range] by blast
  have bounds: "(0::nat) < length (pads example_study)" "(2::nat) < length example_distances"
       "(1::nat) < length example_frequencies"
    by (simp_all add: example_study_def example_pads_def example_distances_def
          example_frequencies_def)
  from dust_field_of_sweep_record [OF run bounds] have
    field: "Dust_Solar (rs ! ((0 * length example_distances + 2) * length example_frequencies + 1)) =
            dust_coeff (pads example_study ! 0) * vehicle_thrust example_study /
              (example_distances ! 2) ^ 2 * (example_frequencies ! 1)"
    by blast
  have idx: "(0 * length example_distances + 2) * length example_frequencies + 1 = 9"
    by (simp add: example_distances_def example_frequencies_def)
  have val: "dust_coeff (pads example_study ! 0) * vehicle_thrust example_study /
              (example_distances ! 2) ^ 2 * (example_frequencies ! 1) = 0.0032"
    by (simp add: example_study_def example_pads_def example_distances_def
          example_frequencies_def)
  from run field show ?thesis unfolding idx val by blast
qed

text \<open>
  Claim C2.  Whenever the sweep returns its list, the record for design \<open>i\<close>, distance
  \<open>j\<close> and frequency \<open>k\<close> carries in its erosion field the value
  \<open>erosion_coeff * thrust * frequency\<close>: what \<open>calculate_erosion\<close> returns for
  that design and the thrust of the study, multiplied by the frequency inside the loop.
\<close>

theorem erosion_field_of_sweep_record:
  assumes "run_full_study st ds fs = Inr rs"
    and "i < length (pads st)" and "j < length ds" and "k < length fs"
  shows "Erosion (rs ! ((i * length ds + j) * length fs + k)) =
           calculate_erosion (pads st ! i) (vehicle_thrust st) * (fs ! k) \<and>
         Erosion (rs ! ((i * length ds + j) * length fs + k)) =
           erosion_coeff (pads st ! i) * vehicle_thrust st * (fs ! k)"
  using assms(2-4) run_full_study_Inr [OF assms(1)]
  by (simp add: spec_grid_nth spec_record_def calculate_erosion_def)

text \<open>
  The same point of the script's configuration (\<open>erosion_coeff = 0.1\<close>, thrust 40,
  frequency 10): an erosion rate of 40.
\<close>

theorem erosion_field_of_sweep_record_witness:
  "\<exists>rs. run_full_study example_study example_distances example_frequencies = Inr rs \<and>
        Erosion (rs ! 9) = 40"
proof -
  obtain rs where
    run: "run_full_study example_study example_distances example_frequencies = Inr rs"
    using run_full_study_in_range [OF example_distances_in_range] by blast
  have bounds: "(0::nat) < length (pads example_study)" "(2::nat) < length example_distances"
       "(1::nat) < length example_frequencies"
    by (simp_all add: example_study_def example_pads_def example_distances_def
          example_frequencies_def)
  from erosion_field_of_sweep_record [OF run bounds] have
    field: "Erosion (rs ! ((0 * length example_distances + 2) * length example_frequencies + 1)) =
            erosion_coeff (pads example_study ! 0) * vehicle_thrust example_study *
              (example_frequencies ! 1)"
    by blast
  have idx: "(0 * length example_distances + 2) * length example_frequencies + 1 = 9"
    by (simp add: example_distances_def example_frequencies_def)
  have val: "erosion_coeff (pads example_study ! 0) * vehicle_thrust example_study *
              (example_frequencies ! 1) = 40"
    by (simp add: example_study_def example_pads_def example_frequencies_def)
  from run field show ?thesis unfolding idx val by blast
qed




text \<open>
  Claim C4.  Whenever the sweep returns a list, the record of design \<open>i\<close>, distance
  \<open>j\<close> and frequency \<open>k\<close> stands at index
  \<open>(i * |distances| + j) * |frequencies| + k\<close>: the records are grouped by design in
  the order supplied, within a design by distance in the order supplied, within a
  distance by frequency in the order supplied.
\<close>

theorem sweep_order:
  assumes "run_full_study st ds fs = Inr rs"
    and "i < length (pads st)" and "j < length ds" and "k < length fs"
  shows "Pad (rs ! ((i * length ds + j) * length fs + k)) = name (pads st ! i) \<and>
         Solar_Distance (rs ! ((i * length ds + j) * length fs + k)) = ds ! j \<and>
         Frequency (rs ! ((i * length ds + j) * length fs + k)) = fs ! k"
  using assms(2-4) run_full_study_Inr [OF assms(1)]
  by (simp add: spec_grid_nth spec_record_def)

text \<open>
  Two designs, two distances, two frequencies: index 0 is (D0, X0, F0), index 1 is
  (D0, X0, F1), index 2 is (D0, X1, F0), and the last index 7 is (D1, X1, F1).
\<close>

theorem sweep_order_witness:
  "\<exists>rs. run_full_study \<lparr>pads = take 2 example_pads, vehicle_thrust = 40, lifetime_months = 120\<rparr>
           [30, 40] [5, 10] = Inr rs \<and>
     (Pad (rs ! 0), Solar_Distance (rs ! 0), Frequency (rs ! 0)) =
        (''Bare Regolith Pad (BRP)'', 30, 5) \<and>
     (Pad (rs ! 1), Solar_Distance (rs ! 1), Frequency (rs ! 1)) =
        (''Bare Regolith Pad (BRP)'', 30, 10) \<and>
     (Pad (rs ! 2), Solar_Distance (rs ! 2), Frequency (rs ! 2)) =
        (''Bare Regolith Pad (BRP)'', 40, 5) \<and>
     (Pad (rs ! 7), Solar_Distance (rs ! 7), Frequency (rs ! 7)) =
        (''Hardened Surface Pad (HSP)'', 40, 10)"
proof -
  let ?st = "\<lparr>pads = take 2 example_pads, vehicle_thrust = 40, lifetime_months = 120\<rparr>"
  have "\<forall>d\<in>set [30, 40 :: real]. float_underflow < d ^ 2 \<and> d ^ 2 < float_overflow"
    by (simp add: float_underflow_def float_overflow_def)
  then obtain rs where run: "run_full_study ?st [30, 40] [5, 10] = Inr rs"
    using run_full_study_in_range by blast
  from sweep_order [OF run, of 0 0 0] sweep_order [OF run, of 0 0 1]
    sweep_order [OF run, of 0 1 0] sweep_order [OF run, of 1 1 1] run
  show ?thesis by (simp add: example_pads_def eval_nat_numeral)
qed








text \<open>
  Claim C9 says that the failure of a sweep identifies the triple that triggered it.  A
  sweep of one design, one distance and one frequency has a single triple, so a failure
  of it is triggered by that triple.  Two such sweeps whose triples differ in the design,
  in the distance and in the frequency surface the same failure: \<open>run_full_study\<close>
  passes on the exception of the division and adds nothing to it.
\<close>

theorem failure_identifies_triple_counterexample:
  "run_full_study (example_study\<lparr>pads := [example_pads ! 0]\<rparr>) [0] [5] =
     Inl ZeroDivisionError \<and>
   run_full_study (example_study\<lparr>pads := [example_pads ! 3]\<rparr>) [1 / 2 ^ 600] [10] =
     Inl ZeroDivisionError \<and>
   example_pads ! 0 \<noteq> example_pads ! 3 \<and> (0::real) \<noteq> 1 / 2 ^ 600 \<and> (5::real) \<noteq> 10"
  by (simp add: run_full_study_def calculate_dust_deposition_def pow2_def truediv_def
        calculate_erosion_def float_overflow_def float_underflow_def power_divide
        example_study_def example_pads_def)

text \<open>
  Claim C9 as amended.  The failure that a failing sweep surfaces does not identify the
  triple that triggered it: the sweep of a single triple, made of a design, a distance
  and a frequency that all do not occur in the failing sweep, surfaces the same failure.
\<close>

theorem failure_does_not_identify_triple:
  assumes "run_full_study st ds fs = Inl e"
  shows "\<exists>p' d' f'. run_full_study (st\<lparr>pads := [p']\<rparr>) [d'] [f'] = Inl e \<and>
           p' \<notin> set (pads st) \<and> d' \<notin> set ds \<and> f' \<notin> set fs"
proof -
  obtain d' where d': "d' \<notin> set ds" "distance_failure d' = Some e"
    using fresh_failing_distance by blast
  obtain f' where f': "f' \<notin> set fs"
    using fresh_real by blast
  obtain x where x: "x \<notin> set (map dust_coeff (pads st))"
    using fresh_real by blast
  define p' where "p' = \<lparr>name = [], dust_coeff = x, erosion_coeff = 0,
                          construction_cost = 0, maintenance_interval = 1\<rparr>"
  have "dust_coeff p' = x" by (simp add: p'_def)
  with x have "p' \<notin> set (pads st)" by auto
  moreover have "run_full_study (st\<lparr>pads := [p']\<rparr>) [d'] [f'] = Inl e"
    using d'(2) by (simp add: run_full_study_Inl)
  ultimately show ?thesis using d'(1) f' by blast
qed

text \<open>A failing run: the script's configuration with the distances 30 and 0.\<close>

theorem failure_does_not_identify_triple_witness:
  "run_full_study example_study [30, 0] example_frequencies = Inl ZeroDivisionError \<and>
   (\<exists>p' d' f'. run_full_study (example_study\<lparr>pads := [p']\<rparr>) [d'] [f'] = Inl ZeroDivisionError \<and>
      p' \<notin> set example_pads \<and> d' \<notin> set [30, 0] \<and> f' \<notin> set example_frequencies)"
proof -
  have fails: "run_full_study example_study [30, 0] example_frequencies = Inl ZeroDivisionError"
    by (simp add: run_full_study_def calculate_dust_deposition_def pow2_def truediv_def
          calculate_erosion_def float_overflow_def float_underflow_def
          example_study_def example_pads_def example_frequencies_def)
  from failure_does_not_identify_triple [OF fails] fails
  show ?thesis by (simp add: example_study_def)
qed

text \<open>
  Claim C10.  If the designs, the distances or the frequencies are empty, the sweep
  raises nothing and returns the empty list: no loop body is ever entered, and nothing
  at the start of \<open>run_full_study\<close> checks that the sequences are non-empty.
\<close>

theorem empty_axis_gives_empty_result:
  assumes "pads st = [] \<or> ds = [] \<or> fs = []"
  shows "run_full_study st ds fs = Inr []"
proof -
  from assms have "(if pads st = [] \<or> fs = [] then None else axis_failure ds) = None"
    by auto
  then have "run_full_study st ds fs = Inr (spec_grid (vehicle_thrust st) (pads st) ds fs)"
    by (simp add: run_full_study_eq)
  then show ?thesis using assms by (simp add: spec_grid_empty)
qed

text \<open>
  One empty sequence at a time; a distance of 0 among the distances does no harm when
  there is no design or no frequency to evaluate it with.
\<close>

theorem empty_axis_gives_empty_result_witness:
  "run_full_study (example_study\<lparr>pads := []\<rparr>) [30, 0] example_frequencies = Inr [] \<and>
   run_full_study example_study [] example_frequencies = Inr [] \<and>
   run_full_study example_study [30, 0] [] = Inr []"
  using empty_axis_gives_empty_result [of "example_study\<lparr>pads := []\<rparr>" "[30, 0]" example_frequencies]
    empty_axis_gives_empty_result [of example_study "[]" example_frequencies]
    empty_axis_gives_empty_result [of example_study "[30, 0]" "[]"]
  by simp

end
